theory Spec2Isabelle
  imports Main "HOL-Library.AList"
begin

section \<open>Pigeon: a typed publish/subscribe client over STOMP\<close>

text \<open>
  A shallow embedding of \<^verbatim>\<open>src/pigeon/client.py\<close> (class \<^verbatim>\<open>Pigeon\<close>, class
  \<^verbatim>\<open>TEMCommsListener\<close>, \<^verbatim>\<open>get_str_time_ms\<close>) and of \<^verbatim>\<open>call_with_correct_args\<close>
  in \<^verbatim>\<open>src/pigeon/utils.py\<close>. Methods take the client state and return the outcome
  (\<open>Inl\<close> a raised exception, \<open>Inr\<close> a normal return) with the new state. Everything
  the client does to its collaborators (the STOMP connection, the logger, \<^verbatim>\<open>time.sleep\<close>,
  the message classes, the subscriber callbacks) is appended to a trace kept in the state.
\<close>

subsection \<open>Values, exceptions, frames\<close>

type_synonym topic = string
type_synonym bytes = string

text \<open>A Python dict of strings, in insertion order.\<close>
type_synonym headers = "(string \<times> string) list"

text \<open>Python values that travel as message fields, message objects and return values.\<close>
datatype pyval = PNone | PBool bool | PInt int | PStr string | PDict "(string \<times> pyval) list"

type_synonym kwargs = "(string \<times> pyval) list"

text \<open>
  The exceptions of \<^verbatim>\<open>pigeon.exceptions\<close> and those of Python and stomp.py that the
  client meets. \<open>ConnectFailedException msg cause\<close> carries its message and its
  \<^verbatim>\<open>__cause__\<close> (set by \<^verbatim>\<open>raise ... from e\<close>). \<open>SignatureException n k\<close> carries the two
  numbers of its message: \<open>n\<close> arguments required, \<open>k\<close> available.
\<close>
datatype exn =
    NoSuchTopicException string
  | VersionMismatchException
  | SignatureException nat nat
  | KeyError string
  | ConnectFailedException string "exn option"
  | OtherException string

text \<open>
  \<^verbatim>\<open>str(e)\<close> of a \<^verbatim>\<open>ConnectFailedException\<close>, its message: the one exception that the
  f-strings of \<^verbatim>\<open>connect\<close> format. No equation is given for the other exceptions.
\<close>
fun exn_str :: "exn \<Rightarrow> string" where
  "exn_str (ConnectFailedException m c) = m"

record frame =
  headers :: headers
  body :: bytes

subsection \<open>Message classes and callbacks\<close>

text \<open>
  A message class (a Pydantic model) as the client uses it: \<^verbatim>\<open>msg_class(**data)\<close>,
  \<^verbatim>\<open>.serialize()\<close> and \<^verbatim>\<open>.deserialize(body)\<close>, each of which may raise.
\<close>
record msg_class =
  construct :: "kwargs \<Rightarrow> exn + pyval"
  serialize :: "pyval \<Rightarrow> exn + bytes"
  deserialize :: "bytes \<Rightarrow> exn + pyval"

text \<open>The parameter kinds of \<^verbatim>\<open>inspect\<close>.\<close>
datatype kind = POSITIONAL_ONLY | POSITIONAL_OR_KEYWORD | VAR_POSITIONAL | KEYWORD_ONLY | VAR_KEYWORD

text \<open>
  One entry of \<^verbatim>\<open>inspect.signature(func).parameters\<close>; \<open>has_default\<close> is
  \<^verbatim>\<open>param.default != param.empty\<close>.
\<close>
record param =
  name :: string
  kind :: kind
  has_default :: bool

text \<open>The candidate arguments that dispatch offers to a callback.\<close>
datatype arg = Message pyval | Topic topic | Headers headers

text \<open>
  A callable: its signature, and what calling it with positional and keyword arguments
  does (returns a value, or raises, which includes the \<^verbatim>\<open>TypeError\<close> of a call that does
  not fit the signature).
\<close>
record callback =
  params :: "param list"
  cb_body :: "arg list \<Rightarrow> (string \<times> arg) list \<Rightarrow> exn + pyval"

subsection \<open>The trace of external effects\<close>

text \<open>Calls on the STOMP connection object.\<close>
datatype tcall =
    TConnect "string option" "string option" bool
  | TSend topic bytes headers
  | TSubscribe topic string
  | TUnsubscribe string

datatype level = DEBUG | INFO | WARNING | ERROR

text \<open>One constructor per logging call of the client, with the values it interpolates.\<close>
datatype log_msg =
    Connected_msg
  | Connection_failed_msg exn
  | Sent_data_msg topic bytes
  | Unregistered_topic_msg topic
  | Subscribed_msg topic
  | Unsubscribed_msg topic

datatype event =
    Transport tcall
  | Sleep nat
  | Log level log_msg
  | Deserialize topic bytes
  | Invoked "arg list" "(string \<times> arg) list"

subsection \<open>The client state\<close>

text \<open>
  \<open>service\<close>, \<open>topics\<close>, \<open>msg_versions\<close> and \<open>callbacks\<close> are the attributes
  \<^verbatim>\<open>_service\<close>, \<^verbatim>\<open>_topics\<close>, \<^verbatim>\<open>_msg_versions\<close> and \<^verbatim>\<open>_callbacks\<close>. The connection
  object is external: \<open>conn_results k\<close> is what its \<open>k\<close>-th \<^verbatim>\<open>connect\<close> call does
  (\<open>None\<close> returns, \<open>Some e\<close> raises \<open>e\<close>), \<open>conn_calls\<close> counts the \<^verbatim>\<open>connect\<close>
  calls made so far, and \<open>conn_fault c\<close> is the exception, if any, that any other call
  \<open>c\<close> raises.
\<close>
record pigeon =
  service :: string
  topics :: "topic \<rightharpoonup> msg_class"
  msg_versions :: "topic \<rightharpoonup> string"
  callbacks :: "topic \<rightharpoonup> callback"
  conn_results :: "nat \<Rightarrow> exn option"
  conn_calls :: nat
  conn_fault :: "tcall \<Rightarrow> exn option"
  trace :: "event list"

definition emit :: "event list \<Rightarrow> pigeon \<Rightarrow> pigeon" where
  "emit es s = s\<lparr>trace := trace s @ es\<rparr>"

subsection \<open>Timestamps\<close>

text \<open>Python's \<^verbatim>\<open>str\<close> on an \<^verbatim>\<open>int\<close>: decimal digits, with a minus sign when negative.\<close>
fun str_nat :: "nat \<Rightarrow> string" where
  "str_nat n = (if n < 10 then [''0123456789'' ! n]
                else str_nat (n div 10) @ [''0123456789'' ! (n mod 10)])"

declare str_nat.simps [simp del]

definition str_int :: "int \<Rightarrow> string" where
  "str_int i = (if i < 0 then CHR ''-'' # str_nat (nat (- i)) else str_nat (nat i))"

text \<open>
  \<^verbatim>\<open>get_str_time_ms()\<close> is \<^verbatim>\<open>str(int(time.time_ns() / 1e6))\<close>. The clock and the float
  division are outside the model: the argument \<open>ms\<close> is the integer
  \<^verbatim>\<open>int(time.time_ns() / 1e6)\<close> that this call computes.
\<close>
definition get_str_time_ms :: "int \<Rightarrow> string" where
  "get_str_time_ms ms = str_int ms"

subsection \<open>Construction and the topic registry\<close>

text \<open>\<^verbatim>\<open>register_topic\<close> and \<^verbatim>\<open>register_topics\<close>: two dict updates each.\<close>
definition register_topic :: "pigeon \<Rightarrow> topic \<Rightarrow> msg_class \<Rightarrow> string \<Rightarrow> pigeon" where
  "register_topic s topic cls version =
     s\<lparr>topics := (topics s)(topic \<mapsto> cls),
       msg_versions := (msg_versions s)(topic \<mapsto> version)\<rparr>"

definition register_topics :: "pigeon \<Rightarrow> (topic \<rightharpoonup> msg_class) \<Rightarrow> string \<Rightarrow> pigeon" where
  "register_topics s tps version =
     s\<lparr>topics := topics s ++ tps,
       msg_versions := msg_versions s ++ (\<lambda>topic. map_option (\<lambda>_. version) (tps topic))\<rparr>"

text \<open>\<^verbatim>\<open>_load_topics\<close>: one \<^verbatim>\<open>register_topics\<close> call per entry point.\<close>
fun load_topics :: "pigeon \<Rightarrow> ((topic \<rightharpoonup> msg_class) \<times> string) list \<Rightarrow> pigeon" where
  "load_topics s [] = s"
| "load_topics s ((tps, version) # eps) = load_topics (register_topics s tps version) eps"

text \<open>
  \<^verbatim>\<open>Pigeon.__init__\<close>. \<open>entry_points\<close> are the loaded \<^verbatim>\<open>pigeon.msgs\<close> entry points, each a
  pair of a topic-to-class mapping and a version; the connection's behaviour is given by
  \<open>results\<close> and \<open>fault\<close>.
\<close>
definition init :: "string \<Rightarrow> bool \<Rightarrow> ((topic \<rightharpoonup> msg_class) \<times> string) list \<Rightarrow>
    (nat \<Rightarrow> exn option) \<Rightarrow> (tcall \<Rightarrow> exn option) \<Rightarrow> pigeon" where
  "init svc do_load entry_points results fault =
     (let s = \<lparr>service = svc, topics = Map.empty, msg_versions = Map.empty,
                callbacks = Map.empty, conn_results = results, conn_calls = 0,
                conn_fault = fault, trace = []\<rparr>
      in if do_load then load_topics s entry_points else s)"

definition ensure_topic_exists :: "pigeon \<Rightarrow> topic \<Rightarrow> exn + unit" where
  "ensure_topic_exists s topic =
     (if topics s topic = None \<or> msg_versions s topic = None
      then Inl (NoSuchTopicException (''Topic '' @ topic @ '' not defined.''))
      else Inr ())"

text \<open>Any sequence of registration calls.\<close>
datatype reg_call =
    Register_topic topic msg_class string
  | Register_topics "topic \<rightharpoonup> msg_class" string

fun do_reg :: "pigeon \<Rightarrow> reg_call \<Rightarrow> pigeon" where
  "do_reg s (Register_topic topic cls version) = register_topic s topic cls version"
| "do_reg s (Register_topics tps version) = register_topics s tps version"

definition do_regs :: "pigeon \<Rightarrow> reg_call list \<Rightarrow> pigeon" where
  "do_regs s calls = foldl do_reg s calls"

subsection \<open>Connecting\<close>

text \<open>
  The \<^verbatim>\<open>while retries < retry_limit\<close> loop of \<^verbatim>\<open>connect\<close>. A
  \<^verbatim>\<open>ConnectFailedException\<close> of the connection is caught, logged, counted and slept on;
  when the count reaches the limit the method raises a new \<^verbatim>\<open>ConnectFailedException\<close>
  \<^verbatim>\<open>from\<close> the caught one. Any other exception leaves the method at once.
\<close>
function connect_loop ::
    "string option \<Rightarrow> string option \<Rightarrow> int \<Rightarrow> int \<Rightarrow> pigeon \<Rightarrow> (exn + unit) \<times> pigeon" where
  "connect_loop username password retry_limit retries s =
     (if retries < retry_limit then
        (let s1 = emit [Transport (TConnect username password True)]
                    (s\<lparr>conn_calls := conn_calls s + 1\<rparr>)
         in case conn_results s (conn_calls s) of
              None \<Rightarrow> (Inr (), emit [Log INFO Connected_msg] s1)
            | Some (ConnectFailedException m c) \<Rightarrow>
                (let e = ConnectFailedException m c;
                     s2 = emit [Log ERROR (Connection_failed_msg e), Sleep 1] s1
                 in if retries + 1 = retry_limit
                    then (Inl (ConnectFailedException
                                 (''Could not connect to server: '' @ exn_str e) (Some e)), s2)
                    else connect_loop username password retry_limit (retries + 1) s2)
            | Some e \<Rightarrow> (Inl e, s1))
      else (Inr (), s))"
  by pat_completeness auto
termination
  by (relation "measure (\<lambda>(username, password, retry_limit, retries, s).
                   nat (retry_limit - retries))") auto

declare connect_loop.simps [simp del]

definition connect :: "pigeon \<Rightarrow> string option \<Rightarrow> string option \<Rightarrow> int \<Rightarrow> (exn + unit) \<times> pigeon" where
  "connect s username password retry_limit = connect_loop username password retry_limit 0 s"

subsection \<open>Sending\<close>

text \<open>
  \<^verbatim>\<open>send(topic, **data)\<close>; \<open>ms\<close> is the clock reading of its \<^verbatim>\<open>get_str_time_ms()\<close> call.
  The two dict lookups cannot miss after \<^verbatim>\<open>_ensure_topic_exists\<close>; their \<^verbatim>\<open>KeyError\<close>
  branches are written out all the same.
\<close>
definition send :: "pigeon \<Rightarrow> int \<Rightarrow> topic \<Rightarrow> kwargs \<Rightarrow> (exn + unit) \<times> pigeon" where
  "send s ms topic data =
     (case ensure_topic_exists s topic of
        Inl e \<Rightarrow> (Inl e, s)
      | Inr _ \<Rightarrow>
     (case topics s topic of
        None \<Rightarrow> (Inl (KeyError topic), s)
      | Some cls \<Rightarrow>
     (case construct cls data of
        Inl e \<Rightarrow> (Inl e, s)
      | Inr msg \<Rightarrow>
     (case serialize cls msg of
        Inl e \<Rightarrow> (Inl e, s)
      | Inr serialized_data \<Rightarrow>
     (case msg_versions s topic of
        None \<Rightarrow> (Inl (KeyError topic), s)
      | Some version \<Rightarrow>
        (let hdrs = [(''service'', service s), (''version'', version),
                     (''sent_at'', get_str_time_ms ms)];
             call = TSend topic serialized_data hdrs;
             s1 = emit [Transport call] s
         in case conn_fault s call of
              Some e \<Rightarrow> (Inl e, s1)
            | None \<Rightarrow> (Inr (), emit [Log DEBUG (Sent_data_msg topic serialized_data)] s1)))))))"

subsection \<open>Adaptive invocation\<close>

text \<open>The call \<^verbatim>\<open>func(*args, **kwargs)\<close>, recorded in the trace.\<close>
definition invoke :: "callback \<Rightarrow> arg list \<Rightarrow> (string \<times> arg) list \<Rightarrow> event list \<Rightarrow>
    (exn + pyval) \<times> event list" where
  "invoke func args kws tr = (cb_body func args kws, tr @ [Invoked args kws])"

text \<open>
  The count \<^verbatim>\<open>num_args\<close> of \<^verbatim>\<open>call_with_correct_args\<close>: the parameters with
  \<^verbatim>\<open>param.default == param.empty and param.kind != param.VAR_KEYWORD\<close>.
\<close>
definition num_args :: "param list \<Rightarrow> nat" where
  "num_args ps = length [p \<leftarrow> ps. \<not> has_default p \<and> kind p \<noteq> VAR_KEYWORD]"

text \<open>
  \<^verbatim>\<open>call_with_correct_args(func, *args, **kwargs)\<close> of \<^verbatim>\<open>utils.py\<close>, on a trace.
\<close>
definition call_with_correct_args :: "callback \<Rightarrow> arg list \<Rightarrow> (string \<times> arg) list \<Rightarrow>
    event list \<Rightarrow> (exn + pyval) \<times> event list" where
  "call_with_correct_args func args kws tr =
     (let ps = params func;
          args1 =
            (if True \<notin> set [kind p = VAR_POSITIONAL. p \<leftarrow> ps] then
               (if num_args ps > length args
                then Inl (SignatureException (num_args ps) (length args))
                else Inr (take (num_args ps) args))
             else Inr args)
      in case args1 of
           Inl e \<Rightarrow> (Inl e, tr)
         | Inr args' \<Rightarrow>
             (let kws' =
                (if True \<notin> set [kind p = VAR_KEYWORD. p \<leftarrow> ps] then
                   (let allowed_keys = [name p. p \<leftarrow> ps, has_default p]
                    in [kv \<leftarrow> kws. fst kv \<in> set allowed_keys])
                 else kws)
              in invoke func args' kws' tr))"

subsection \<open>Receiving\<close>

text \<open>\<^verbatim>\<open>Pigeon._handle_message(message_frame)\<close>.\<close>
definition handle_message :: "pigeon \<Rightarrow> frame \<Rightarrow> (exn + unit) \<times> pigeon" where
  "handle_message s message_frame =
     (case map_of (headers message_frame) ''subscription'' of
        None \<Rightarrow> (Inl (KeyError ''subscription''), s)
      | Some topic \<Rightarrow>
        if topics s topic = None \<or> msg_versions s topic = None then
          (Inr (), emit [Log WARNING (Unregistered_topic_msg topic)] s)
        else if map_of (headers message_frame) ''version'' \<noteq> msg_versions s topic then
          (Inl VersionMismatchException, s)
        else
          (case topics s topic of
             None \<Rightarrow> (Inl (KeyError topic), s)
           | Some cls \<Rightarrow>
             (let s1 = emit [Deserialize topic (body message_frame)] s
              in case deserialize cls (body message_frame) of
                   Inl e \<Rightarrow> (Inl e, s1)
                 | Inr message_data \<Rightarrow>
                   (case callbacks s topic of
                      None \<Rightarrow> (Inl (KeyError topic), s1)
                    | Some cb \<Rightarrow>
                      (case call_with_correct_args cb
                              [Message message_data, Topic topic, Headers (headers message_frame)]
                              [] (trace s1) of
                         (Inl e, tr) \<Rightarrow> (Inl e, s1\<lparr>trace := tr\<rparr>)
                       | (Inr _, tr) \<Rightarrow> (Inr (), s1\<lparr>trace := tr\<rparr>))))))"

text \<open>
  \<^verbatim>\<open>TEMCommsListener.on_message(frame)\<close>: stamp the frame, then call the listener's
  callback; \<open>ms\<close> is the clock reading of the \<^verbatim>\<open>get_str_time_ms()\<close> call. A dict
  assignment replaces the value of a key that is present and appends a new key otherwise.
\<close>
definition on_message :: "(frame \<Rightarrow> 'r) \<Rightarrow> int \<Rightarrow> frame \<Rightarrow> 'r" where
  "on_message callback ms frm =
     callback (frm\<lparr>headers := AList.update ''recieved_at'' (get_str_time_ms ms) (headers frm)\<rparr>)"

text \<open>
  The delivery path: \<^verbatim>\<open>__init__\<close> sets the connection's listener to
  \<^verbatim>\<open>TEMCommsListener(self._handle_message)\<close>.
\<close>
definition deliver :: "pigeon \<Rightarrow> int \<Rightarrow> frame \<Rightarrow> (exn + unit) \<times> pigeon" where
  "deliver s ms frm = on_message (handle_message s) ms frm"

subsection \<open>Subscribing and unsubscribing\<close>

text \<open>\<^verbatim>\<open>subscribe(topic, callback)\<close>.\<close>
definition subscribe :: "pigeon \<Rightarrow> topic \<Rightarrow> callback \<Rightarrow> (exn + unit) \<times> pigeon" where
  "subscribe s topic cb =
     (case ensure_topic_exists s topic of
        Inl e \<Rightarrow> (Inl e, s)
      | Inr _ \<Rightarrow>
        (let bind = (\<lambda>s'. (Inr (), emit [Log INFO (Subscribed_msg topic)]
                                   (s'\<lparr>callbacks := (callbacks s')(topic \<mapsto> cb)\<rparr>)))
         in if callbacks s topic = None then
              (let s1 = emit [Transport (TSubscribe topic topic)] s
               in case conn_fault s (TSubscribe topic topic) of
                    Some e \<Rightarrow> (Inl e, s1)
                  | None \<Rightarrow> bind s1)
            else bind s))"

text \<open>\<^verbatim>\<open>unsubscribe(topic)\<close>; \<^verbatim>\<open>del self._callbacks[topic]\<close> raises \<^verbatim>\<open>KeyError\<close> on a missing key.\<close>
definition unsubscribe :: "pigeon \<Rightarrow> topic \<Rightarrow> (exn + unit) \<times> pigeon" where
  "unsubscribe s topic =
     (case ensure_topic_exists s topic of
        Inl e \<Rightarrow> (Inl e, s)
      | Inr _ \<Rightarrow>
        (let s1 = emit [Transport (TUnsubscribe topic)] s
         in case conn_fault s (TUnsubscribe topic) of
              Some e \<Rightarrow> (Inl e, s1)
            | None \<Rightarrow>
              (let s2 = emit [Log INFO (Unsubscribed_msg topic)] s1
               in if callbacks s2 topic = None then (Inl (KeyError topic), s2)
                  else (Inr (), s2\<lparr>callbacks := (callbacks s2)(topic := None)\<rparr>))))"

subsection \<open>Notions the properties are stated with\<close>

text \<open>The exceptions that \<^verbatim>\<open>except stomp.exception.ConnectFailedException\<close> catches.\<close>
definition is_connect_failed :: "exn \<Rightarrow> bool" where
  "is_connect_failed e = (case e of ConnectFailedException m c \<Rightarrow> True | _ \<Rightarrow> False)"

text \<open>
  What \<open>n\<close> failed connection attempts leave in the trace, the \<open>i\<close>-th failing with
  \<open>e i\<close>: the \<^verbatim>\<open>connect\<close> call, the error log line and \<^verbatim>\<open>time.sleep(1)\<close>, \<open>n\<close> times.
\<close>
definition failed_attempts ::
    "string option \<Rightarrow> string option \<Rightarrow> (nat \<Rightarrow> exn) \<Rightarrow> nat \<Rightarrow> event list" where
  "failed_attempts username password e n =
     concat (map (\<lambda>i. [Transport (TConnect username password True),
                         Log ERROR (Connection_failed_msg (e i)), Sleep 1]) [0..<n])"

text \<open>
  The parameters a caller has to supply positionally or by name: no default, and neither
  keyword-only nor a \<^verbatim>\<open>*args\<close>/\<^verbatim>\<open>**kwargs\<close> collector.
\<close>
definition required_positional :: "param list \<Rightarrow> nat" where
  "required_positional ps =
     length [p \<leftarrow> ps. \<not> has_default p \<and>
                       (kind p = POSITIONAL_ONLY \<or> kind p = POSITIONAL_OR_KEYWORD)]"

text \<open>The three candidate arguments of a dispatch, for a message received on a frame.\<close>
definition candidates :: "pyval \<Rightarrow> topic \<Rightarrow> int \<Rightarrow> frame \<Rightarrow> arg list" where
  "candidates message_data topic ms frm =
     [Message message_data, Topic topic,
      Headers (AList.update ''recieved_at'' (get_str_time_ms ms) (headers frm))]"

subsection \<open>A scenario: the topic \<open>orders\<close> at version \<open>1.0\<close>\<close>

definition orders_class :: msg_class where
  "orders_class =
     \<lparr>construct = (\<lambda>data. if map fst data = [''id'', ''qty''] then Inr (PDict data)
                           else Inl (OtherException ''ValidationError'')),
      serialize = (\<lambda>msg. case msg of PDict kvs \<Rightarrow> Inr (concat (map fst kvs))
                           | _ \<Rightarrow> Inl (OtherException ''TypeError'')),
      deserialize = (\<lambda>b. Inr (PStr b))\<rparr>"

text \<open>A broker that refuses every connection and accepts every other call.\<close>
definition refusing :: "nat \<Rightarrow> exn option" where
  "refusing k = Some (ConnectFailedException ''refused'' None)"

text \<open>A broker that refuses twice and then accepts.\<close>
definition flaky :: "nat \<Rightarrow> exn option" where
  "flaky k = (if k < 2 then Some (ConnectFailedException ''refused'' None) else None)"

definition orders_client :: pigeon where
  "orders_client =
     register_topic (init ''demo'' False [] refusing (\<lambda>c. None)) ''orders'' orders_class ''1.0''"

definition positional :: "string \<Rightarrow> param" where
  "positional n = \<lparr>name = n, kind = POSITIONAL_OR_KEYWORD, has_default = False\<rparr>"

text \<open>\<^verbatim>\<open>def f(<names>): return None\<close>\<close>
definition plain_callback :: "string list \<Rightarrow> callback" where
  "plain_callback names = \<lparr>params = map positional names, cb_body = (\<lambda>args kws. Inr PNone)\<rparr>"

definition orders_frame :: frame where
  "orders_frame = \<lparr>headers = [(''subscription'', ''orders''), (''version'', ''1.0'')],
                   body = ''idqty''\<rparr>"

definition stale_frame :: frame where
  "stale_frame = \<lparr>headers = [(''subscription'', ''orders''), (''version'', ''0.9'')],
                  body = ''idqty''\<rparr>"

definition prices_frame :: frame where
  "prices_frame = \<lparr>headers = [(''subscription'', ''prices''), (''version'', ''1.0'')],
                   body = ''idqty''\<rparr>"

text \<open>The client with a callback bound to \<open>orders\<close>.\<close>
definition orders_subscriber :: "callback \<Rightarrow> pigeon" where
  "orders_subscriber cb = snd (subscribe orders_client ''orders'' cb)"

text \<open>The client that subscribed to \<open>orders\<close> and unsubscribed again.\<close>
definition orders_unsubscribed :: pigeon where
  "orders_unsubscribed =
     snd (unsubscribe (orders_subscriber (plain_callback [''msg''])) ''orders'')"

section \<open>Lemmas\<close>

subsection \<open>The trace and the registry\<close>

lemma emit_simps [simp]:
  "trace (emit es s) = trace s @ es"
  "service (emit es s) = service s"
  "topics (emit es s) = topics s"
  "msg_versions (emit es s) = msg_versions s"
  "callbacks (emit es s) = callbacks s"
  "conn_results (emit es s) = conn_results s"
  "conn_calls (emit es s) = conn_calls s"
  "conn_fault (emit es s) = conn_fault s"
  by (simp_all add: emit_def)

lemma emit_emit: "emit es (emit ds s) = emit (ds @ es) s"
  by (simp add: emit_def)

lemma dom_register_topic:
  "dom (topics (register_topic s t c v)) = insert t (dom (topics s))"
  "dom (msg_versions (register_topic s t c v)) = insert t (dom (msg_versions s))"
  by (simp_all add: register_topic_def)

lemma dom_register_topics:
  "dom (topics (register_topics s tps v)) = dom (topics s) \<union> dom tps"
  "dom (msg_versions (register_topics s tps v)) = dom (msg_versions s) \<union> dom tps"
  by (auto simp: register_topics_def dom_def map_add_def split: option.splits)

lemma do_reg_bound:
  "dom (topics s) = dom (msg_versions s) \<Longrightarrow>
   dom (topics (do_reg s c)) = dom (msg_versions (do_reg s c))"
  by (cases c) (simp_all add: dom_register_topic dom_register_topics)

lemma do_regs_bound:
  "dom (topics s) = dom (msg_versions s) \<Longrightarrow>
   dom (topics (do_regs s cs)) = dom (msg_versions (do_regs s cs))"
  unfolding do_regs_def
  by (induction cs arbitrary: s) (simp_all add: do_reg_bound)

lemma load_topics_bound:
  "dom (topics s) = dom (msg_versions s) \<Longrightarrow>
   dom (topics (load_topics s eps)) = dom (msg_versions (load_topics s eps))"
  by (induction s eps rule: load_topics.induct) (simp_all add: dom_register_topics)

lemma init_bound:
  "dom (topics (init svc do_load eps results fault)) =
   dom (msg_versions (init svc do_load eps results fault))"
  by (simp add: init_def Let_def load_topics_bound)

lemma ensure_topic_exists_iff:
  "ensure_topic_exists s T = Inr () \<longleftrightarrow> topics s T \<noteq> None \<and> msg_versions s T \<noteq> None"
  by (simp add: ensure_topic_exists_def)

subsection \<open>Timestamps and stamping\<close>

text \<open>A clock reading that is not negative prints as decimal digits only.\<close>

lemma str_nat_digits: "set (str_nat n) \<subseteq> set ''0123456789''"
proof (induction n rule: str_nat.induct)
  case (1 n)
  have nth: "''0123456789'' ! d \<in> set ''0123456789''" if "d < 10" for d
    using that nth_mem [of d "''0123456789''"] by simp
  show ?case
  proof (cases "n < 10")
    case True
    then show ?thesis
      using nth [of n] by (subst str_nat.simps) simp
  next
    case False
    have "n mod 10 < 10" by simp
    then show ?thesis
      using False 1 nth [of "n mod 10"] by (subst str_nat.simps) simp
  qed
qed

lemma get_str_time_ms_digits:
  "0 \<le> ms \<Longrightarrow> set (get_str_time_ms ms) \<subseteq> set ''0123456789''"
  using str_nat_digits by (simp add: get_str_time_ms_def str_int_def)

lemma map_of_stamp:
  "k \<noteq> ''recieved_at'' \<Longrightarrow> map_of (AList.update ''recieved_at'' v hs) k = map_of hs k"
  by (simp add: update_conv')

text \<open>
  What the listener does to the headers it hands on: the key \<open>recieved_at\<close> gets the
  timestamp, every other key keeps its value.
\<close>

lemma on_message_key:
  "map_of (on_message headers ms frm) k =
     (if k = ''recieved_at'' then Some (get_str_time_ms ms) else map_of (headers frm) k)"
  by (simp add: on_message_def update_conv')

subsection \<open>Sending on a registered topic\<close>

text \<open>
  When the message class accepts and serializes the payload, \<^verbatim>\<open>send\<close> calls the
  connection's \<^verbatim>\<open>send\<close> once, with the topic as destination, the serialized payload as body
  and the three headers \<open>service\<close>, \<open>version\<close>, \<open>sent_at\<close>, in this order.
\<close>

lemma send_registered:
  assumes "topics s T = Some cls" and "msg_versions s T = Some v"
    and "construct cls data = Inr m" and "serialize cls m = Inr b"
  shows "trace (snd (send s ms T data)) =
           trace s @ Transport (TSend T b [(''service'', service s), (''version'', v),
                                           (''sent_at'', get_str_time_ms ms)])
             # (case conn_fault s (TSend T b [(''service'', service s), (''version'', v),
                                           (''sent_at'', get_str_time_ms ms)]) of
                  None \<Rightarrow> [Log DEBUG (Sent_data_msg T b)] | Some e \<Rightarrow> [])"
  using assms
  by (simp add: send_def ensure_topic_exists_def Let_def split: option.splits)

subsection \<open>Subscribing\<close>

lemma subscribe_first:
  assumes "topics s T \<noteq> None" and "msg_versions s T \<noteq> None"
    and "callbacks s T = None" and "conn_fault s (TSubscribe T T) = None"
  shows "subscribe s T cb =
    (Inr (), emit [Transport (TSubscribe T T), Log INFO (Subscribed_msg T)]
               (s\<lparr>callbacks := (callbacks s)(T \<mapsto> cb)\<rparr>))"
  using assms by (simp add: subscribe_def ensure_topic_exists_def Let_def emit_def)

lemma subscribe_again:
  assumes "topics s T \<noteq> None" and "msg_versions s T \<noteq> None"
    and "callbacks s T \<noteq> None"
  shows "subscribe s T cb =
    (Inr (), emit [Log INFO (Subscribed_msg T)] (s\<lparr>callbacks := (callbacks s)(T \<mapsto> cb)\<rparr>))"
  using assms by (auto simp: subscribe_def ensure_topic_exists_def Let_def emit_def)

subsection \<open>The retry loop\<close>

lemma failed_attempts_0: "failed_attempts u p e 0 = []"
  by (simp add: failed_attempts_def)

lemma failed_attempts_Suc:
  "failed_attempts u p e (Suc n) =
     [Transport (TConnect u p True), Log ERROR (Connection_failed_msg (e 0)), Sleep 1]
     @ failed_attempts u p (\<lambda>i. e (Suc i)) n"
proof -
  have "[0..<Suc n] = 0 # map Suc [0..<n]"
    by (simp add: upt_conv_Cons map_Suc_upt del: upt_Suc)
  then show ?thesis
    by (simp add: failed_attempts_def comp_def del: upt_Suc)
qed

lemma connect_loop_failure_step:
  assumes "retries < retry_limit" and "conn_results s (conn_calls s) = Some e"
    and "is_connect_failed e"
  shows "connect_loop u p retry_limit retries s =
     (let s2 = emit [Transport (TConnect u p True), Log ERROR (Connection_failed_msg e), Sleep 1]
                 (s\<lparr>conn_calls := conn_calls s + 1\<rparr>)
      in if retries + 1 = retry_limit
         then (Inl (ConnectFailedException (''Could not connect to server: '' @ exn_str e) (Some e)), s2)
         else connect_loop u p retry_limit (retries + 1) s2)"
  using assms
  by (subst connect_loop.simps)
     (auto simp: is_connect_failed_def Let_def emit_def split: exn.splits)

lemma connect_loop_success_step:
  assumes "retries < retry_limit" and "conn_results s (conn_calls s) = None"
  shows "connect_loop u p retry_limit retries s =
     (Inr (), emit [Transport (TConnect u p True), Log INFO Connected_msg]
                (s\<lparr>conn_calls := conn_calls s + 1\<rparr>))"
  using assms by (subst connect_loop.simps) (simp add: Let_def emit_def)

lemma connect_loop_exhausted:
  assumes "\<forall>i<n. conn_results s (conn_calls s + i) = Some (e i) \<and> is_connect_failed (e i)"
    and "retry_limit - retries = int n" and "0 < n"
  shows "connect_loop u p retry_limit retries s =
     (Inl (ConnectFailedException (''Could not connect to server: '' @ exn_str (e (n - 1)))
             (Some (e (n - 1)))),
      emit (failed_attempts u p e n) (s\<lparr>conn_calls := conn_calls s + n\<rparr>))"
  using assms
proof (induction n arbitrary: retries s e)
  case 0
  then show ?case by simp
next
  case (Suc n)
  let ?s2 = "emit [Transport (TConnect u p True), Log ERROR (Connection_failed_msg (e 0)), Sleep 1]
               (s\<lparr>conn_calls := conn_calls s + 1\<rparr>)"
  have lt: "retries < retry_limit"
    using Suc.prems(2) by simp
  have e0: "conn_results s (conn_calls s) = Some (e 0)" "is_connect_failed (e 0)"
    using Suc.prems(1) by auto
  have step: "connect_loop u p retry_limit retries s =
     (if retries + 1 = retry_limit
      then (Inl (ConnectFailedException (''Could not connect to server: '' @ exn_str (e 0))
                   (Some (e 0))), ?s2)
      else connect_loop u p retry_limit (retries + 1) ?s2)"
    using connect_loop_failure_step [OF lt e0, of u p] by (simp add: Let_def)
  show ?case
  proof (cases n)
    case 0
    then have "retries + 1 = retry_limit"
      using Suc.prems(2) by simp
    then show ?thesis
      using step 0 by (simp add: failed_attempts_Suc failed_attempts_0)
  next
    case (Suc k)
    then have ne: "retries + 1 \<noteq> retry_limit"
      using Suc.prems(2) by simp
    have rest: "\<forall>i<n. conn_results ?s2 (conn_calls ?s2 + i) = Some (e (Suc i)) \<and>
                        is_connect_failed (e (Suc i))"
      using Suc.prems(1) by auto
    have "retry_limit - (retries + 1) = int n"
      using Suc.prems(2) by simp
    moreover have "0 < n"
      using Suc by simp
    ultimately have "connect_loop u p retry_limit (retries + 1) ?s2 =
       (Inl (ConnectFailedException
               (''Could not connect to server: '' @ exn_str (e (Suc (n - 1)))) (Some (e (Suc (n - 1))))),
        emit (failed_attempts u p (\<lambda>i. e (Suc i)) n) (?s2\<lparr>conn_calls := conn_calls ?s2 + n\<rparr>))"
      using Suc.IH [of ?s2 "\<lambda>i. e (Suc i)" "retries + 1"] rest by simp
    then show ?thesis
      using step ne Suc by (simp add: failed_attempts_Suc emit_def)
  qed
qed

lemma connect_loop_succeeds_after:
  assumes "\<forall>i<k. conn_results s (conn_calls s + i) = Some (e i) \<and> is_connect_failed (e i)"
    and "conn_results s (conn_calls s + k) = None"
    and "int k < retry_limit - retries"
  shows "connect_loop u p retry_limit retries s =
     (Inr (),
      emit (failed_attempts u p e k @ [Transport (TConnect u p True), Log INFO Connected_msg])
        (s\<lparr>conn_calls := conn_calls s + k + 1\<rparr>))"
  using assms
proof (induction k arbitrary: retries s e)
  case 0
  then show ?case
    using connect_loop_success_step [of retries retry_limit s u p]
    by (simp add: failed_attempts_0)
next
  case (Suc k)
  let ?s2 = "emit [Transport (TConnect u p True), Log ERROR (Connection_failed_msg (e 0)), Sleep 1]
               (s\<lparr>conn_calls := conn_calls s + 1\<rparr>)"
  have lt: "retries < retry_limit"
    using Suc.prems(3) by simp
  have ne: "retries + 1 \<noteq> retry_limit"
    using Suc.prems(3) by simp
  have e0: "conn_results s (conn_calls s) = Some (e 0)" "is_connect_failed (e 0)"
    using Suc.prems(1) by auto
  have step: "connect_loop u p retry_limit retries s = connect_loop u p retry_limit (retries + 1) ?s2"
    using connect_loop_failure_step [OF lt e0, of u p] ne by (simp add: Let_def)
  have rest: "\<forall>i<k. conn_results ?s2 (conn_calls ?s2 + i) = Some (e (Suc i)) \<and>
                      is_connect_failed (e (Suc i))"
    using Suc.prems(1) by auto
  have ok: "conn_results ?s2 (conn_calls ?s2 + k) = None"
    using Suc.prems(2) by simp
  have "int k < retry_limit - (retries + 1)"
    using Suc.prems(3) by simp
  then have "connect_loop u p retry_limit (retries + 1) ?s2 =
     (Inr (),
      emit (failed_attempts u p (\<lambda>i. e (Suc i)) k @ [Transport (TConnect u p True), Log INFO Connected_msg])
        (?s2\<lparr>conn_calls := conn_calls ?s2 + k + 1\<rparr>))"
    using Suc.IH [of ?s2 "\<lambda>i. e (Suc i)" "retries + 1"] rest ok by simp
  then show ?case
    using step by (simp add: failed_attempts_Suc emit_def)
qed

subsection \<open>Dispatch\<close>

lemma no_var_positional_iff:
  "True \<notin> set [kind p = VAR_POSITIONAL. p \<leftarrow> ps] \<longleftrightarrow> (\<forall>p\<in>set ps. kind p \<noteq> VAR_POSITIONAL)"
  by auto

lemma call_too_many_required:
  assumes "\<forall>p\<in>set (params func). kind p \<noteq> VAR_POSITIONAL"
    and "length args < num_args (params func)"
  shows "call_with_correct_args func args kws tr =
     (Inl (SignatureException (num_args (params func)) (length args)), tr)"
  using assms by (simp add: call_with_correct_args_def Let_def no_var_positional_iff)

lemma call_truncates:
  assumes "\<forall>p\<in>set (params func). kind p \<noteq> VAR_POSITIONAL"
    and "num_args (params func) \<le> length args"
  shows "call_with_correct_args func args [] tr =
     (cb_body func (take (num_args (params func)) args) [],
      tr @ [Invoked (take (num_args (params func)) args) []])"
  using assms
  by (simp add: call_with_correct_args_def Let_def no_var_positional_iff invoke_def)

lemma required_positional_le: "required_positional ps \<le> num_args ps"
  by (induction ps) (auto simp: required_positional_def num_args_def)

text \<open>
  The count of \<^verbatim>\<open>call_with_correct_args\<close> is the number of required positional
  parameters when there is no \<^verbatim>\<open>*args\<close> and every keyword-only parameter has a default.
\<close>

lemma num_args_required_positional:
  assumes "\<forall>p\<in>set ps. kind p \<noteq> VAR_POSITIONAL"
    and "\<forall>p\<in>set ps. kind p = KEYWORD_ONLY \<longrightarrow> has_default p"
  shows "num_args ps = required_positional ps"
proof -
  have "(\<not> has_default p \<and> kind p \<noteq> VAR_KEYWORD) =
        (\<not> has_default p \<and> (kind p = POSITIONAL_ONLY \<or> kind p = POSITIONAL_OR_KEYWORD))"
    if "p \<in> set ps" for p
    using that assms by (cases "kind p") auto
  then have "[p \<leftarrow> ps. \<not> has_default p \<and> kind p \<noteq> VAR_KEYWORD] =
             [p \<leftarrow> ps. \<not> has_default p \<and> (kind p = POSITIONAL_ONLY \<or> kind p = POSITIONAL_OR_KEYWORD)]"
    by (intro filter_cong) simp_all
  then show ?thesis
    by (simp add: num_args_def required_positional_def)
qed

lemma deliver_dispatch:
  assumes "map_of (headers frm) ''subscription'' = Some T"
    and "topics s T = Some cls" and "msg_versions s T = Some v"
    and "map_of (headers frm) ''version'' = Some v"
    and "deserialize cls (body frm) = Inr m"
    and "callbacks s T = Some cb"
  shows "deliver s ms frm =
     (case call_with_correct_args cb
             [Message m, Topic T,
              Headers (AList.update ''recieved_at'' (get_str_time_ms ms) (headers frm))]
             [] (trace s @ [Deserialize T (body frm)]) of
        (Inl e, tr) \<Rightarrow> (Inl e, s\<lparr>trace := tr\<rparr>)
      | (Inr r, tr) \<Rightarrow> (Inr (), s\<lparr>trace := tr\<rparr>))"
  using assms
  by (simp add: deliver_def on_message_def handle_message_def map_of_stamp Let_def emit_def
        split: prod.splits sum.splits)

lemma deliver_signature_error:
  assumes "map_of (headers frm) ''subscription'' = Some T"
    and "topics s T = Some cls" and "msg_versions s T = Some v"
    and "map_of (headers frm) ''version'' = Some v"
    and "deserialize cls (body frm) = Inr m"
    and "callbacks s T = Some cb"
    and "\<forall>p\<in>set (params cb). kind p \<noteq> VAR_POSITIONAL"
    and "3 < num_args (params cb)"
  shows "deliver s ms frm =
     (Inl (SignatureException (num_args (params cb)) 3), emit [Deserialize T (body frm)] s)"
  using deliver_dispatch [OF assms(1-6), of ms] call_too_many_required [OF assms(7)] assms(8)
  by (simp add: emit_def)

lemma deliver_truncated:
  assumes "map_of (headers frm) ''subscription'' = Some T"
    and "topics s T = Some cls" and "msg_versions s T = Some v"
    and "map_of (headers frm) ''version'' = Some v"
    and "deserialize cls (body frm) = Inr m"
    and "callbacks s T = Some cb"
    and "\<forall>p\<in>set (params cb). kind p \<noteq> VAR_POSITIONAL"
    and "num_args (params cb) \<le> 3"
  shows "deliver s ms frm =
     (case cb_body cb (take (num_args (params cb)) (candidates m T ms frm)) [] of
        Inl e \<Rightarrow> Inl e | Inr r \<Rightarrow> Inr (),
      emit [Deserialize T (body frm),
            Invoked (take (num_args (params cb)) (candidates m T ms frm)) []] s)"
  using deliver_dispatch [OF assms(1-6), of ms] call_truncates [OF assms(7)] assms(8)
  by (simp add: emit_def candidates_def split: sum.splits)

lemma deliver_no_callback:
  assumes "map_of (headers frm) ''subscription'' = Some T"
    and "topics s T = Some cls" and "msg_versions s T = Some v"
    and "map_of (headers frm) ''version'' = Some v"
    and "deserialize cls (body frm) = Inr m"
    and "callbacks s T = None"
  shows "deliver s ms frm = (Inl (KeyError T), emit [Deserialize T (body frm)] s)"
  using assms
  by (simp add: deliver_def on_message_def handle_message_def map_of_stamp Let_def)

text \<open>
  The guard of \<^verbatim>\<open>_handle_message\<close>: a frame whose subscription id lacks a message class or
  a version in the registry is logged with a warning and dropped.
\<close>

lemma unregistered_topic_dropped:
  assumes "map_of (headers frm) ''subscription'' = Some T"
    and "topics s T = None \<or> msg_versions s T = None"
  shows "deliver s ms frm = (Inr (), emit [Log WARNING (Unregistered_topic_msg T)] s)"
  using assms
  by (auto simp: deliver_def on_message_def handle_message_def map_of_stamp)

text \<open>
  \<^verbatim>\<open>unsubscribe\<close> on a subscribed topic removes the callback and leaves the registry as
  it is, so a frame that arrives afterwards passes the guard and meets no callback.
\<close>

lemma unsubscribe_subscribed:
  assumes "topics s T \<noteq> None" and "msg_versions s T \<noteq> None"
    and "callbacks s T \<noteq> None" and "conn_fault s (TUnsubscribe T) = None"
  shows "unsubscribe s T =
    (Inr (), emit [Transport (TUnsubscribe T), Log INFO (Unsubscribed_msg T)]
               (s\<lparr>callbacks := (callbacks s)(T := None)\<rparr>))"
  using assms by (auto simp: unsubscribe_def ensure_topic_exists_def Let_def emit_def)

lemma deliver_after_unsubscribe:
  assumes "topics s T = Some cls" and "msg_versions s T = Some v"
    and "callbacks s T \<noteq> None" and "conn_fault s (TUnsubscribe T) = None"
    and "map_of (headers frm) ''subscription'' = Some T"
    and "map_of (headers frm) ''version'' = Some v"
    and "deserialize cls (body frm) = Inr m"
  shows "deliver (snd (unsubscribe s T)) ms frm =
    (Inl (KeyError T), emit [Deserialize T (body frm)] (snd (unsubscribe s T)))"
proof -
  have "topics s T \<noteq> None" "msg_versions s T \<noteq> None"
    using assms(1,2) by simp_all
  then have u: "unsubscribe s T =
    (Inr (), emit [Transport (TUnsubscribe T), Log INFO (Unsubscribed_msg T)]
               (s\<lparr>callbacks := (callbacks s)(T := None)\<rparr>))"
    using assms(3,4) by (rule unsubscribe_subscribed)
  have "topics (snd (unsubscribe s T)) T = Some cls"
    "msg_versions (snd (unsubscribe s T)) T = Some v"
    "callbacks (snd (unsubscribe s T)) T = None"
    using assms(1,2) by (simp_all add: u)
  then show ?thesis
    using assms(5-7) deliver_no_callback by blast
qed

subsection \<open>The scenario, evaluated\<close>

lemma orders_client_simps:
  "topics orders_client ''orders'' = Some orders_class"
  "msg_versions orders_client ''orders'' = Some ''1.0''"
  "topics orders_client ''prices'' = None"
  "callbacks orders_client = Map.empty"
  "conn_fault orders_client = (\<lambda>c. None)"
  "conn_results orders_client = refusing"
  "conn_calls orders_client = 0"
  "trace orders_client = []"
  "service orders_client = ''demo''"
  by (simp_all add: orders_client_def register_topic_def init_def)

lemma orders_subscriber_simps:
  "topics (orders_subscriber cb) ''orders'' = Some orders_class"
  "msg_versions (orders_subscriber cb) ''orders'' = Some ''1.0''"
  "callbacks (orders_subscriber cb) ''orders'' = Some cb"
  "trace (orders_subscriber cb) =
     [Transport (TSubscribe ''orders'' ''orders''), Log INFO (Subscribed_msg ''orders'')]"
  by (simp_all add: orders_subscriber_def subscribe_first orders_client_simps)

lemma orders_frame_simps:
  "map_of (headers orders_frame) ''subscription'' = Some ''orders''"
  "map_of (headers orders_frame) ''version'' = Some ''1.0''"
  "deserialize orders_class (body orders_frame) = Inr (PStr ''idqty'')"
  "body orders_frame = ''idqty''"
  by (simp_all add: orders_frame_def orders_class_def)

lemma plain_callback_simps:
  "\<forall>p\<in>set (params (plain_callback names)). kind p \<noteq> VAR_POSITIONAL"
  "num_args (params (plain_callback names)) = length names"
  "required_positional (params (plain_callback names)) = length names"
  "cb_body (plain_callback names) args kws = Inr PNone"
  by (simp_all add: plain_callback_def positional_def num_args_def required_positional_def)

lemma plain_callback_keyword_only:
  "\<forall>p\<in>set (params (plain_callback names)). kind p = KEYWORD_ONLY \<longrightarrow> has_default p"
  by (simp add: plain_callback_def positional_def)

lemma str_1700000000000: "get_str_time_ms 1700000000000 = ''1700000000000''"
  by (simp add: get_str_time_ms_def str_int_def str_nat.simps)

text \<open>
  The scenario of sending \<^verbatim>\<open>{id: 5, qty: 2}\<close> on \<open>orders\<close>: one \<^verbatim>\<open>send\<close> on the connection,
  then the debug log line.
\<close>

lemma send_orders_scenario:
  "send orders_client 1700000000000 ''orders'' [(''id'', PInt 5), (''qty'', PInt 2)] =
     (Inr (), emit [Transport (TSend ''orders'' ''idqty''
                      [(''service'', ''demo''), (''version'', ''1.0''),
                       (''sent_at'', ''1700000000000'')]),
                    Log DEBUG (Sent_data_msg ''orders'' ''idqty'')] orders_client)"
  by (simp add: send_def ensure_topic_exists_def orders_client_simps orders_class_def
        str_1700000000000 Let_def emit_def)

lemma candidates_orders:
  "candidates m T 1700000000000 orders_frame =
     [Message m, Topic T,
      Headers [(''subscription'', ''orders''), (''version'', ''1.0''),
               (''recieved_at'', ''1700000000000'')]]"
  by (simp add: candidates_def orders_frame_def str_1700000000000)

lemma failed_attempts_refused_8:
  "failed_attempts u p (\<lambda>i. ConnectFailedException ''refused'' None) 8 =
     concat (replicate 8 [Transport (TConnect u p True),
                          Log ERROR (Connection_failed_msg (ConnectFailedException ''refused'' None)),
                          Sleep 1])"
  by (simp add: failed_attempts_def map_replicate_const)

section \<open>The claims\<close>

text \<open>
  C1. Outbound, the header contract holds (lemmas \<open>send_registered\<close> and
  \<open>send_orders_scenario\<close>). Inbound, the claim
  has the dispatch path stamp the key \<open>received_at\<close>; \<^verbatim>\<open>TEMCommsListener.on_message\<close>
  writes \<^verbatim>\<open>frame.headers["recieved_at"]\<close>. On the frame of the scenario, received at clock
  reading 1700000000000 by a callback \<^verbatim>\<open>(msg, topic, headers)\<close>, the headers handed to
  the callback carry \<open>recieved_at\<close> after \<open>subscription\<close> and \<open>version\<close>, and no key
  \<open>received_at\<close>.
\<close>
theorem recieved_at_misspelt:
  "trace (snd (deliver (orders_subscriber (plain_callback [''msg'', ''topic'', ''headers'']))
                 1700000000000 orders_frame)) =
     [Transport (TSubscribe ''orders'' ''orders''), Log INFO (Subscribed_msg ''orders''),
      Deserialize ''orders'' ''idqty'',
      Invoked [Message (PStr ''idqty''), Topic ''orders'',
               Headers [(''subscription'', ''orders''), (''version'', ''1.0''),
                        (''recieved_at'', ''1700000000000'')]] []] \<and>
   map_of (on_message headers 1700000000000 orders_frame) ''received_at'' = None"
proof -
  let ?cb = "plain_callback [''msg'', ''topic'', ''headers'']"
  let ?s = "orders_subscriber ?cb"
  have h: "topics ?s ''orders'' = Some orders_class" "msg_versions ?s ''orders'' = Some ''1.0''"
    "callbacks ?s ''orders'' = Some ?cb"
    by (simp_all add: orders_subscriber_simps)
  have c: "\<forall>p\<in>set (params ?cb). kind p \<noteq> VAR_POSITIONAL" "num_args (params ?cb) \<le> 3"
    by (simp_all add: plain_callback_simps)
  have "deliver ?s 1700000000000 orders_frame =
     (Inr (), emit [Deserialize ''orders'' ''idqty'',
                    Invoked (candidates (PStr ''idqty'') ''orders'' 1700000000000 orders_frame) []] ?s)"
    using deliver_truncated [OF orders_frame_simps(1) h(1,2) orders_frame_simps(2,3) h(3) c,
        of 1700000000000]
    by (simp add: plain_callback_simps orders_frame_simps candidates_orders)
  moreover have "map_of (on_message headers 1700000000000 orders_frame) ''received_at'' = None"
    by (simp add: on_message_key orders_frame_def)
  ultimately show ?thesis
    by (simp add: orders_subscriber_simps candidates_orders)
qed

text \<open>
  C2. An inbound frame whose subscription id is a registered topic and whose \<open>version\<close>
  header is absent or differs from the version bound to the topic makes the delivery path
  raise \<^verbatim>\<open>VersionMismatchException\<close>. The state, and with it the trace, is unchanged:
  nothing is deserialized, no callback is invoked, and the exception leaves \<^verbatim>\<open>on_message\<close>.
\<close>
theorem version_mismatch_raises:
  assumes "map_of (headers frm) ''subscription'' = Some T"
    and "topics s T \<noteq> None" and "msg_versions s T = Some v"
    and "map_of (headers frm) ''version'' \<noteq> Some v"
  shows "deliver s ms frm = (Inl VersionMismatchException, s)"
  using assms by (simp add: deliver_def on_message_def handle_message_def map_of_stamp)

theorem version_mismatch_raises_witness:
  "map_of (headers stale_frame) ''version'' = Some ''0.9'' \<and>
   msg_versions (orders_subscriber (plain_callback [''msg''])) ''orders'' = Some ''1.0'' \<and>
   deliver (orders_subscriber (plain_callback [''msg''])) 1700000000000 stale_frame =
     (Inl VersionMismatchException, orders_subscriber (plain_callback [''msg'']))"
proof -
  let ?s = "orders_subscriber (plain_callback [''msg''])"
  have h1: "map_of (headers stale_frame) ''subscription'' = Some ''orders''"
    by (simp add: stale_frame_def)
  have h2: "topics ?s ''orders'' \<noteq> None"
    by (simp add: orders_subscriber_simps)
  have h3: "msg_versions ?s ''orders'' = Some ''1.0''"
    by (simp add: orders_subscriber_simps)
  have h4: "map_of (headers stale_frame) ''version'' \<noteq> Some ''1.0''"
    by (simp add: stale_frame_def)
  have "map_of (headers stale_frame) ''version'' = Some ''0.9''"
    by (simp add: stale_frame_def)
  then show ?thesis
    using h3 version_mismatch_raises [OF h1 h2 h3 h4, of 1700000000000] by simp
qed

text \<open>
  C3, amended: for a frame that reaches dispatch (registered topic, matching version,
  body deserialized to \<open>m\<close>) and a subscribed callback that has no \<^verbatim>\<open>*args\<close> parameter, no
  keyword-only parameter without a default, and at most 3 required positional parameters,
  the callback is invoked exactly once, with the first \<open>required_positional\<close> of the
  candidates (message, topic, headers) and no keyword argument, and the outcome of the
  delivery is the callback's. A callback with more required positional parameters is not
  invoked (the counterexample below, and C6). What happens to a callback with a required
  keyword-only parameter is left open.
\<close>
theorem adaptive_arity_dispatch:
  assumes "map_of (headers frm) ''subscription'' = Some T"
    and "topics s T = Some cls" and "msg_versions s T = Some v"
    and "map_of (headers frm) ''version'' = Some v"
    and "deserialize cls (body frm) = Inr m"
    and "callbacks s T = Some cb"
    and "\<forall>p\<in>set (params cb). kind p \<noteq> VAR_POSITIONAL"
    and "\<forall>p\<in>set (params cb). kind p = KEYWORD_ONLY \<longrightarrow> has_default p"
    and "required_positional (params cb) \<le> 3"
  shows "deliver s ms frm =
     (case cb_body cb (take (required_positional (params cb)) (candidates m T ms frm)) [] of
        Inl e \<Rightarrow> Inl e | Inr r \<Rightarrow> Inr (),
      emit [Deserialize T (body frm),
            Invoked (take (required_positional (params cb)) (candidates m T ms frm)) []] s)"
proof -
  have n: "num_args (params cb) = required_positional (params cb)"
    using assms(7,8) by (rule num_args_required_positional)
  then have "num_args (params cb) \<le> 3"
    using assms(9) by simp
  with assms(1-7) have "deliver s ms frm =
     (case cb_body cb (take (num_args (params cb)) (candidates m T ms frm)) [] of
        Inl e \<Rightarrow> Inl e | Inr r \<Rightarrow> Inr (),
      emit [Deserialize T (body frm),
            Invoked (take (num_args (params cb)) (candidates m T ms frm)) []] s)"
    by (rule deliver_truncated)
  then show ?thesis
    by (simp only: n)
qed

text \<open>
  A callback declared with no parameter is invoked with no argument; one declared
  \<^verbatim>\<open>(msg, topic)\<close> gets the message and the topic, not the headers.
\<close>
theorem adaptive_arity_dispatch_witness:
  "required_positional (params (plain_callback [])) = 0 \<and>
   deliver (orders_subscriber (plain_callback [])) 1700000000000 orders_frame =
     (Inr (), emit [Deserialize ''orders'' ''idqty'', Invoked [] []]
                (orders_subscriber (plain_callback []))) \<and>
   required_positional (params (plain_callback [''msg'', ''topic''])) = 2 \<and>
   deliver (orders_subscriber (plain_callback [''msg'', ''topic''])) 1700000000000 orders_frame =
     (Inr (), emit [Deserialize ''orders'' ''idqty'',
                    Invoked [Message (PStr ''idqty''), Topic ''orders''] []]
                (orders_subscriber (plain_callback [''msg'', ''topic''])))"
proof -
  let ?cb0 = "plain_callback []"
  let ?cb2 = "plain_callback [''msg'', ''topic'']"
  have s0: "topics (orders_subscriber ?cb0) ''orders'' = Some orders_class"
    "msg_versions (orders_subscriber ?cb0) ''orders'' = Some ''1.0''"
    "callbacks (orders_subscriber ?cb0) ''orders'' = Some ?cb0"
    by (simp_all add: orders_subscriber_simps)
  have s2: "topics (orders_subscriber ?cb2) ''orders'' = Some orders_class"
    "msg_versions (orders_subscriber ?cb2) ''orders'' = Some ''1.0''"
    "callbacks (orders_subscriber ?cb2) ''orders'' = Some ?cb2"
    by (simp_all add: orders_subscriber_simps)
  have c0: "\<forall>p\<in>set (params ?cb0). kind p \<noteq> VAR_POSITIONAL"
    "\<forall>p\<in>set (params ?cb0). kind p = KEYWORD_ONLY \<longrightarrow> has_default p"
    "required_positional (params ?cb0) \<le> 3"
    by (simp_all add: plain_callback_simps plain_callback_keyword_only)
  have c2: "\<forall>p\<in>set (params ?cb2). kind p \<noteq> VAR_POSITIONAL"
    "\<forall>p\<in>set (params ?cb2). kind p = KEYWORD_ONLY \<longrightarrow> has_default p"
    "required_positional (params ?cb2) \<le> 3"
    by (simp_all add: plain_callback_simps plain_callback_keyword_only)
  show ?thesis
    using adaptive_arity_dispatch [OF orders_frame_simps(1) s0(1,2) orders_frame_simps(2,3) s0(3) c0,
        of 1700000000000]
      adaptive_arity_dispatch [OF orders_frame_simps(1) s2(1,2) orders_frame_simps(2,3) s2(3) c2,
        of 1700000000000]
    by (simp add: plain_callback_simps orders_frame_simps candidates_orders)
qed

text \<open>
  C3 as stated, for every callback without \<^verbatim>\<open>*args\<close>, fails on a callback with four
  required positional parameters: the delivery raises and the trace holds no invocation.
\<close>
theorem adaptive_arity_dispatch_counterexample:
  "map kind (params (plain_callback [''a'', ''b'', ''c'', ''d''])) =
     [POSITIONAL_OR_KEYWORD, POSITIONAL_OR_KEYWORD, POSITIONAL_OR_KEYWORD, POSITIONAL_OR_KEYWORD] \<and>
   required_positional (params (plain_callback [''a'', ''b'', ''c'', ''d''])) = 4 \<and>
   callbacks (orders_subscriber (plain_callback [''a'', ''b'', ''c'', ''d''])) ''orders'' =
     Some (plain_callback [''a'', ''b'', ''c'', ''d'']) \<and>
   fst (deliver (orders_subscriber (plain_callback [''a'', ''b'', ''c'', ''d'']))
          1700000000000 orders_frame) = Inl (SignatureException 4 3) \<and>
   trace (snd (deliver (orders_subscriber (plain_callback [''a'', ''b'', ''c'', ''d'']))
                 1700000000000 orders_frame)) =
     [Transport (TSubscribe ''orders'' ''orders''), Log INFO (Subscribed_msg ''orders''),
      Deserialize ''orders'' ''idqty'']"
proof -
  let ?cb = "plain_callback [''a'', ''b'', ''c'', ''d'']"
  let ?s = "orders_subscriber ?cb"
  have h: "topics ?s ''orders'' = Some orders_class" "msg_versions ?s ''orders'' = Some ''1.0''"
    "callbacks ?s ''orders'' = Some ?cb"
    by (simp_all add: orders_subscriber_simps)
  have c: "\<forall>p\<in>set (params ?cb). kind p \<noteq> VAR_POSITIONAL" "3 < num_args (params ?cb)"
    by (simp_all add: plain_callback_simps)
  have "map kind (params ?cb) =
     [POSITIONAL_OR_KEYWORD, POSITIONAL_OR_KEYWORD, POSITIONAL_OR_KEYWORD, POSITIONAL_OR_KEYWORD]"
    by (simp add: plain_callback_def positional_def)
  then show ?thesis
    using deliver_signature_error [OF orders_frame_simps(1) h(1,2) orders_frame_simps(2,3) h(3) c,
        of 1700000000000]
    by (simp add: plain_callback_simps orders_frame_simps orders_subscriber_simps)
qed

text \<open>
  C4. With a positive retry limit (8 by default) and a connection whose \<^verbatim>\<open>connect\<close> raises
  \<^verbatim>\<open>ConnectFailedException\<close> at each of the next \<open>retry_limit\<close> calls, \<^verbatim>\<open>connect\<close> makes
  exactly \<open>retry_limit\<close> attempts, each followed by an error log line and
  \<^verbatim>\<open>time.sleep(1)\<close>, and then raises a \<^verbatim>\<open>ConnectFailedException\<close> whose cause is the
  exception of the last attempt. When the first \<open>k < retry_limit\<close> attempts fail and the
  next one succeeds, \<^verbatim>\<open>connect\<close> returns after \<open>k + 1\<close> attempts.
\<close>
theorem connect_retry_limit:
  "(0 < retry_limit \<and>
    (\<forall>i<nat retry_limit. conn_results s (conn_calls s + i) = Some (e i) \<and> is_connect_failed (e i))
    \<longrightarrow> connect s username password retry_limit =
          (Inl (ConnectFailedException
                  (''Could not connect to server: '' @ exn_str (e (nat retry_limit - 1)))
                  (Some (e (nat retry_limit - 1)))),
           emit (failed_attempts username password e (nat retry_limit))
             (s\<lparr>conn_calls := conn_calls s + nat retry_limit\<rparr>))) \<and>
   (int k < retry_limit \<and>
    (\<forall>i<k. conn_results s (conn_calls s + i) = Some (e i) \<and> is_connect_failed (e i)) \<and>
    conn_results s (conn_calls s + k) = None
    \<longrightarrow> connect s username password retry_limit =
          (Inr (),
           emit (failed_attempts username password e k
                 @ [Transport (TConnect username password True), Log INFO Connected_msg])
             (s\<lparr>conn_calls := conn_calls s + k + 1\<rparr>)))"
proof (intro conjI impI)
  assume a: "0 < retry_limit \<and>
    (\<forall>i<nat retry_limit. conn_results s (conn_calls s + i) = Some (e i) \<and> is_connect_failed (e i))"
  then have "retry_limit - 0 = int (nat retry_limit)" "0 < nat retry_limit"
    by simp_all
  then show "connect s username password retry_limit =
          (Inl (ConnectFailedException
                  (''Could not connect to server: '' @ exn_str (e (nat retry_limit - 1)))
                  (Some (e (nat retry_limit - 1)))),
           emit (failed_attempts username password e (nat retry_limit))
             (s\<lparr>conn_calls := conn_calls s + nat retry_limit\<rparr>))"
    unfolding connect_def using a by (intro connect_loop_exhausted) simp_all
next
  assume a: "int k < retry_limit \<and>
    (\<forall>i<k. conn_results s (conn_calls s + i) = Some (e i) \<and> is_connect_failed (e i)) \<and>
    conn_results s (conn_calls s + k) = None"
  then show "connect s username password retry_limit =
          (Inr (),
           emit (failed_attempts username password e k
                 @ [Transport (TConnect username password True), Log INFO Connected_msg])
             (s\<lparr>conn_calls := conn_calls s + k + 1\<rparr>))"
    unfolding connect_def by (intro connect_loop_succeeds_after) simp_all
qed

theorem connect_retry_limit_witness:
  "fst (connect orders_client None None 8) =
     Inl (ConnectFailedException ''Could not connect to server: refused''
            (Some (ConnectFailedException ''refused'' None))) \<and>
   conn_calls (snd (connect orders_client None None 8)) = 8 \<and>
   trace (snd (connect orders_client None None 8)) =
     concat (replicate 8 [Transport (TConnect None None True),
                          Log ERROR (Connection_failed_msg (ConnectFailedException ''refused'' None)),
                          Sleep 1]) \<and>
   fst (connect (orders_client\<lparr>conn_results := flaky\<rparr>) None None 8) = Inr () \<and>
   conn_calls (snd (connect (orders_client\<lparr>conn_results := flaky\<rparr>) None None 8)) = 3"
proof -
  let ?e = "\<lambda>i::nat. ConnectFailedException ''refused'' None"
  have "(0::int) < 8 \<and> (\<forall>i<nat 8. conn_results orders_client (conn_calls orders_client + i) = Some (?e i)
            \<and> is_connect_failed (?e i))"
    by (simp add: orders_client_simps refusing_def is_connect_failed_def)
  then have fail: "connect orders_client None None 8 =
     (Inl (ConnectFailedException (''Could not connect to server: '' @ exn_str (?e (nat 8 - 1)))
             (Some (?e (nat 8 - 1)))),
      emit (failed_attempts None None ?e (nat 8)) (orders_client\<lparr>conn_calls := conn_calls orders_client + nat 8\<rparr>))"
    using connect_retry_limit [of 8 orders_client ?e None None 2] by blast
  let ?s = "orders_client\<lparr>conn_results := flaky\<rparr>"
  have "int 2 < 8 \<and> (\<forall>i<2. conn_results ?s (conn_calls ?s + i) = Some (?e i) \<and> is_connect_failed (?e i))
          \<and> conn_results ?s (conn_calls ?s + 2) = None"
    by (simp add: orders_client_simps flaky_def is_connect_failed_def)
  then have ok: "connect ?s None None 8 =
     (Inr (), emit (failed_attempts None None ?e 2 @ [Transport (TConnect None None True), Log INFO Connected_msg])
                (?s\<lparr>conn_calls := conn_calls ?s + 2 + 1\<rparr>))"
    using connect_retry_limit [of 8 ?s ?e None None 2] by blast
  show ?thesis
    unfolding fail ok
    by (simp add: orders_client_simps failed_attempts_refused_8)
qed

text \<open>
  C5. \<^verbatim>\<open>send\<close> on a topic that lacks a message class or a version raises
  \<^verbatim>\<open>NoSuchTopicException\<close> and leaves the state unchanged: no call reaches the connection.
\<close>
theorem send_unregistered_topic:
  assumes "topics s T = None \<or> msg_versions s T = None"
  shows "send s ms T data = (Inl (NoSuchTopicException (''Topic '' @ T @ '' not defined.'')), s)"
  using assms by (simp add: send_def ensure_topic_exists_def)

theorem send_unregistered_topic_witness:
  "topics orders_client ''prices'' = None \<and>
   send orders_client 1700000000000 ''prices'' [(''id'', PInt 5), (''qty'', PInt 2)] =
     (Inl (NoSuchTopicException ''Topic prices not defined.''), orders_client)"
proof -
  have h: "topics orders_client ''prices'' = None \<or> msg_versions orders_client ''prices'' = None"
    by (simp add: orders_client_simps)
  show ?thesis
    using send_unregistered_topic [OF h, of 1700000000000 "[(''id'', PInt 5), (''qty'', PInt 2)]"]
    by (simp add: orders_client_simps)
qed

text \<open>
  C6. For a frame that reaches dispatch and a subscribed callback without a \<^verbatim>\<open>*args\<close>
  parameter that has more than 3 required positional parameters, the delivery raises
  \<^verbatim>\<open>SignatureException\<close>; the trace gains the deserialization only, so the callback is not
  invoked.
\<close>
theorem too_many_required_raises:
  assumes "map_of (headers frm) ''subscription'' = Some T"
    and "topics s T = Some cls" and "msg_versions s T = Some v"
    and "map_of (headers frm) ''version'' = Some v"
    and "deserialize cls (body frm) = Inr m"
    and "callbacks s T = Some cb"
    and "\<forall>p\<in>set (params cb). kind p \<noteq> VAR_POSITIONAL"
    and "3 < required_positional (params cb)"
  shows "deliver s ms frm =
     (Inl (SignatureException (num_args (params cb)) 3), emit [Deserialize T (body frm)] s)"
proof -
  have "3 < num_args (params cb)"
    using assms(8) required_positional_le [of "params cb"] by simp
  with assms(1-7) show ?thesis
    by (rule deliver_signature_error)
qed

theorem too_many_required_raises_witness:
  "required_positional (params (plain_callback [''msg'', ''topic'', ''headers'', ''extra''])) = 4 \<and>
   deliver (orders_subscriber (plain_callback [''msg'', ''topic'', ''headers'', ''extra'']))
     1700000000000 orders_frame =
     (Inl (SignatureException 4 3),
      emit [Deserialize ''orders'' ''idqty'']
        (orders_subscriber (plain_callback [''msg'', ''topic'', ''headers'', ''extra''])))"
proof -
  let ?cb = "plain_callback [''msg'', ''topic'', ''headers'', ''extra'']"
  let ?s = "orders_subscriber ?cb"
  have h: "topics ?s ''orders'' = Some orders_class" "msg_versions ?s ''orders'' = Some ''1.0''"
    "callbacks ?s ''orders'' = Some ?cb"
    by (simp_all add: orders_subscriber_simps)
  have c: "\<forall>p\<in>set (params ?cb). kind p \<noteq> VAR_POSITIONAL" "3 < required_positional (params ?cb)"
    by (simp_all add: plain_callback_simps)
  show ?thesis
    using too_many_required_raises [OF orders_frame_simps(1) h(1,2) orders_frame_simps(2,3) h(3) c,
        of 1700000000000]
    by (simp add: plain_callback_simps orders_frame_simps)
qed

text \<open>
  C7. On a registered topic \<open>T\<close> that has no callback yet, with a connection that accepts
  the subscription, \<^verbatim>\<open>subscribe(T, cb1)\<close> followed by \<^verbatim>\<open>subscribe(T, cb2)\<close> both return;
  the first issues the one \<^verbatim>\<open>subscribe(destination=T, id=T)\<close> on the connection, the
  second issues none, and afterwards \<open>cb2\<close> is the callback bound to \<open>T\<close>.
\<close>
theorem subscribe_twice:
  assumes "topics s T \<noteq> None" and "msg_versions s T \<noteq> None"
    and "callbacks s T = None" and "conn_fault s (TSubscribe T T) = None"
  shows "fst (subscribe s T cb1) = Inr () \<and>
         trace (snd (subscribe s T cb1)) =
           trace s @ [Transport (TSubscribe T T), Log INFO (Subscribed_msg T)] \<and>
         fst (subscribe (snd (subscribe s T cb1)) T cb2) = Inr () \<and>
         trace (snd (subscribe (snd (subscribe s T cb1)) T cb2)) =
           trace s @ [Transport (TSubscribe T T), Log INFO (Subscribed_msg T),
                      Log INFO (Subscribed_msg T)] \<and>
         callbacks (snd (subscribe (snd (subscribe s T cb1)) T cb2)) = (callbacks s)(T \<mapsto> cb2)"
proof -
  let ?s1 = "emit [Transport (TSubscribe T T), Log INFO (Subscribed_msg T)]
               (s\<lparr>callbacks := (callbacks s)(T \<mapsto> cb1)\<rparr>)"
  have first: "subscribe s T cb1 = (Inr (), ?s1)"
    using assms by (rule subscribe_first)
  have "topics ?s1 T \<noteq> None" "msg_versions ?s1 T \<noteq> None" "callbacks ?s1 T \<noteq> None"
    using assms by simp_all
  then have second: "subscribe ?s1 T cb2 =
      (Inr (), emit [Log INFO (Subscribed_msg T)] (?s1\<lparr>callbacks := (callbacks ?s1)(T \<mapsto> cb2)\<rparr>))"
    by (rule subscribe_again)
  show ?thesis
    unfolding first snd_conv fst_conv second by simp
qed

theorem subscribe_twice_witness:
  "callbacks orders_client ''orders'' = None \<and>
   trace (snd (subscribe (snd (subscribe orders_client ''orders'' (plain_callback [''msg''])))
                 ''orders'' (plain_callback [''msg'', ''topic'']))) =
     [Transport (TSubscribe ''orders'' ''orders''), Log INFO (Subscribed_msg ''orders''),
      Log INFO (Subscribed_msg ''orders'')] \<and>
   callbacks (snd (subscribe (snd (subscribe orders_client ''orders'' (plain_callback [''msg''])))
                     ''orders'' (plain_callback [''msg'', ''topic''])))
     ''orders'' = Some (plain_callback [''msg'', ''topic''])"
proof -
  have h: "topics orders_client ''orders'' \<noteq> None" "msg_versions orders_client ''orders'' \<noteq> None"
    "callbacks orders_client ''orders'' = None"
    "conn_fault orders_client (TSubscribe ''orders'' ''orders'') = None"
    by (simp_all add: orders_client_simps)
  show ?thesis
    using subscribe_twice [OF h, of "plain_callback [''msg'']" "plain_callback [''msg'', ''topic'']"]
    by (simp add: orders_client_simps)
qed

text \<open>
  C8. After construction (with or without entry points) and any sequence of
  \<^verbatim>\<open>register_topic\<close> and \<^verbatim>\<open>register_topics\<close> calls, \<^verbatim>\<open>_topics\<close> and \<^verbatim>\<open>_msg_versions\<close> have
  the same keys, and \<^verbatim>\<open>_ensure_topic_exists(T)\<close> returns exactly when \<open>T\<close> has both a
  message class and a version.
\<close>
theorem registry_binding_invariant:
  "dom (topics (do_regs (init svc do_load eps results fault) calls)) =
     dom (msg_versions (do_regs (init svc do_load eps results fault) calls)) \<and>
   (\<forall>T. ensure_topic_exists (do_regs (init svc do_load eps results fault) calls) T = Inr () \<longleftrightarrow>
      topics (do_regs (init svc do_load eps results fault) calls) T \<noteq> None \<and>
      msg_versions (do_regs (init svc do_load eps results fault) calls) T \<noteq> None)"
  by (simp add: do_regs_bound init_bound ensure_topic_exists_iff)

theorem registry_binding_invariant_witness:
  "dom (topics (do_regs (init ''demo'' True [([''trades'' \<mapsto> orders_class], ''0.3'')] refusing (\<lambda>c. None))
                  [Register_topic ''orders'' orders_class ''1.0'',
                   Register_topics [''prices'' \<mapsto> orders_class, ''orders'' \<mapsto> orders_class] ''2.0''])) =
   dom (msg_versions (do_regs (init ''demo'' True [([''trades'' \<mapsto> orders_class], ''0.3'')] refusing (\<lambda>c. None))
                  [Register_topic ''orders'' orders_class ''1.0'',
                   Register_topics [''prices'' \<mapsto> orders_class, ''orders'' \<mapsto> orders_class] ''2.0''])) \<and>
   ensure_topic_exists (do_regs (init ''demo'' True [([''trades'' \<mapsto> orders_class], ''0.3'')] refusing (\<lambda>c. None))
                  [Register_topic ''orders'' orders_class ''1.0'',
                   Register_topics [''prices'' \<mapsto> orders_class, ''orders'' \<mapsto> orders_class] ''2.0''])
     ''trades'' = Inr ()"
proof -
  let ?s = "do_regs (init ''demo'' True [([''trades'' \<mapsto> orders_class], ''0.3'')] refusing (\<lambda>c. None))
                  [Register_topic ''orders'' orders_class ''1.0'',
                   Register_topics [''prices'' \<mapsto> orders_class, ''orders'' \<mapsto> orders_class] ''2.0'']"
  have "topics ?s ''trades'' \<noteq> None" "msg_versions ?s ''trades'' \<noteq> None"
    by (simp_all add: do_regs_def init_def register_topic_def register_topics_def map_add_def Let_def)
  then show ?thesis
    using registry_binding_invariant [of "''demo''" True "[([''trades'' \<mapsto> orders_class], ''0.3'')]"
        refusing "\<lambda>c. None" "[Register_topic ''orders'' orders_class ''1.0'',
                   Register_topics [''prices'' \<mapsto> orders_class, ''orders'' \<mapsto> orders_class] ''2.0'']"]
    by blast
qed

text \<open>
  C9. The claim has every frame whose topic has no registered handler logged and
  dropped. The guard of \<^verbatim>\<open>_handle_message\<close> tests the registry only (lemma
  \<open>unregistered_topic_dropped\<close>); a frame for a registered topic whose callback
  \<^verbatim>\<open>unsubscribe\<close> has removed passes it (lemma \<open>deliver_after_unsubscribe\<close>). On the
  client that subscribed to \<open>orders\<close> and unsubscribed again, the frame of the scenario is
  deserialized and the lookup \<^verbatim>\<open>self._callbacks[topic]\<close> raises \<^verbatim>\<open>KeyError\<close>; no warning
  is logged.
\<close>
theorem unsubscribed_frame_raises_keyerror:
  "fst (unsubscribe (orders_subscriber (plain_callback [''msg''])) ''orders'') = Inr () \<and>
   callbacks orders_unsubscribed ''orders'' = None \<and>
   fst (deliver orders_unsubscribed 1700000000000 orders_frame) = Inl (KeyError ''orders'') \<and>
   trace (snd (deliver orders_unsubscribed 1700000000000 orders_frame)) =
     [Transport (TSubscribe ''orders'' ''orders''), Log INFO (Subscribed_msg ''orders''),
      Transport (TUnsubscribe ''orders''), Log INFO (Unsubscribed_msg ''orders''),
      Deserialize ''orders'' ''idqty'']"
proof -
  let ?s = "orders_subscriber (plain_callback [''msg''])"
  have h: "topics ?s ''orders'' = Some orders_class" "msg_versions ?s ''orders'' = Some ''1.0''"
    "callbacks ?s ''orders'' \<noteq> None" "conn_fault ?s (TUnsubscribe ''orders'') = None"
    by (simp_all add: orders_subscriber_simps orders_subscriber_def subscribe_first
          orders_client_simps)
  have "topics ?s ''orders'' \<noteq> None" "msg_versions ?s ''orders'' \<noteq> None"
    using h(1,2) by simp_all
  then have u: "unsubscribe ?s ''orders'' =
    (Inr (), emit [Transport (TUnsubscribe ''orders''), Log INFO (Unsubscribed_msg ''orders'')]
               (?s\<lparr>callbacks := (callbacks ?s)(''orders'' := None)\<rparr>))"
    using h(3,4) by (rule unsubscribe_subscribed)
  have d: "deliver orders_unsubscribed 1700000000000 orders_frame =
    (Inl (KeyError ''orders''), emit [Deserialize ''orders'' (body orders_frame)] orders_unsubscribed)"
    unfolding orders_unsubscribed_def
    using h orders_frame_simps(1,2,3) by (rule deliver_after_unsubscribe)
  have "trace orders_unsubscribed =
     [Transport (TSubscribe ''orders'' ''orders''), Log INFO (Subscribed_msg ''orders''),
      Transport (TUnsubscribe ''orders''), Log INFO (Unsubscribed_msg ''orders'')]"
    "callbacks orders_unsubscribed ''orders'' = None"
    by (simp_all add: orders_unsubscribed_def u orders_subscriber_simps)
  then show ?thesis
    by (simp add: u d orders_frame_simps)
qed

text \<open>
  C10. \<^verbatim>\<open>unsubscribe\<close> on a registered topic that has no callback, with a connection that
  accepts the call, issues \<^verbatim>\<open>unsubscribe(id=topic)\<close> on the connection, logs, and then
  raises \<^verbatim>\<open>KeyError\<close> from \<^verbatim>\<open>del self._callbacks[topic]\<close>: the connection has been told to
  unsubscribe although the method fails.
\<close>
theorem unsubscribe_without_subscription:
  assumes "topics s T \<noteq> None" and "msg_versions s T \<noteq> None"
    and "callbacks s T = None" and "conn_fault s (TUnsubscribe T) = None"
  shows "unsubscribe s T =
    (Inl (KeyError T), emit [Transport (TUnsubscribe T), Log INFO (Unsubscribed_msg T)] s)"
  using assms by (simp add: unsubscribe_def ensure_topic_exists_def Let_def emit_emit)

theorem unsubscribe_without_subscription_witness:
  "callbacks orders_client ''orders'' = None \<and>
   unsubscribe orders_client ''orders'' =
    (Inl (KeyError ''orders''),
     emit [Transport (TUnsubscribe ''orders''), Log INFO (Unsubscribed_msg ''orders'')] orders_client)"
proof -
  have h: "topics orders_client ''orders'' \<noteq> None" "msg_versions orders_client ''orders'' \<noteq> None"
    "callbacks orders_client ''orders'' = None"
    "conn_fault orders_client (TUnsubscribe ''orders'') = None"
    by (simp_all add: orders_client_simps)
  show ?thesis
    using h(3) unsubscribe_without_subscription [OF h] by simp
qed

end
